theory Spec2Isabelle
  imports Main "HOL-Library.Word"
begin

section \<open>Data model\<close>

text \<open>
  The embedding follows \<^verbatim>\<open>controlplane/nested/controllers/controller_util.go\<close>.
  \<^verbatim>\<open>ComponentKind\<close> is a Go string type with three named constants; any other string
  reaches the \<^verbatim>\<open>default\<close> branch of the kind switches, which is what \<open>OtherKind\<close> stands for.
\<close>

datatype ComponentKind = APIServer | Etcd | ControllerManager | OtherKind string

text \<open>
  Go \<^verbatim>\<open>error\<close> values. \<open>Opaque\<close> is an error of a collaborator (fetch, template engine,
  decoder, object store) known only by its message; \<open>AlreadyExists\<close> is the object store's
  conflict on creation; \<open>Errorf\<close> keeps the format string and the arguments of a
  \<^verbatim>\<open>fmt.Errorf\<close> call (\<^verbatim>\<open>%s\<close> of a kind, \<^verbatim>\<open>%v\<close> of an error) without formatting them.
\<close>

datatype error = Opaque string | AlreadyExists | Errorf string "fmtArg list"
  and fmtArg = ArgKind ComponentKind | ArgErr error

text \<open>
  A call of one of the repository's functions ends in a returned value, a returned error or a
  panic. A panic is not an error value: no \<^verbatim>\<open>if err != nil\<close> sees it, it unwinds the callers.
\<close>

datatype failure = Panic string | Error error

text \<open>\<^verbatim>\<open>corev1.ResourceRequirements\<close>: resource name to quantity; a nil map is the empty map.\<close>

record ResourceRequirements =
  Limits :: "string \<rightharpoonup> string"
  Requests :: "string \<rightharpoonup> string"

text \<open>
  \<^verbatim>\<open>NestedComponentSpec\<close>, with the fields of the resource definition
  (channel, patches, replicas as int32, resources, version).
\<close>

record NestedComponentSpec =
  Version :: string
  Channel :: string
  Replicas :: "32 word"
  Resources :: ResourceRequirements
  Patches :: "string list"

text \<open>
  \<^verbatim>\<open>metav1.OwnerReference\<close>. \<open>or_Kind\<close> holds \<^verbatim>\<open>string(ncKind)\<close>, kept as the kind it was
  converted from.
\<close>

record OwnerReference =
  or_APIVersion :: string
  or_Kind :: ComponentKind
  or_Name :: string
  or_UID :: string
  or_Controller :: "bool option"
  or_BlockOwnerDeletion :: "bool option"

record ObjectMeta =
  Name :: string
  Namespace :: string
  UID :: string
  OwnerReferences :: "OwnerReference list"

record Container =
  c_Name :: string
  c_Args :: "string list"
  c_Resources :: ResourceRequirements

text \<open>
  \<^verbatim>\<open>appsv1.StatefulSet\<close>: \<open>sts_Replicas\<close> is \<^verbatim>\<open>Spec.Replicas\<close> (a pointer, nil is \<open>None\<close>),
  \<open>sts_Containers\<close> is \<^verbatim>\<open>Spec.Template.Spec.Containers\<close>.
\<close>

record StatefulSet =
  sts_ObjectMeta :: ObjectMeta
  sts_Replicas :: "32 word option"
  sts_Containers :: "Container list"

record Service =
  svc_ObjectMeta :: ObjectMeta
  svc_Spec :: string

text \<open>What is handed to the object store's \<^verbatim>\<open>Create\<close>.\<close>

datatype Object = StsObj StatefulSet | SvcObj Service

record GroupVersion =
  gv_Group :: string
  gv_Version :: string

record GroupVersionKind =
  gvk_Group :: string
  gvk_Version :: string
  gvk_Kind :: ComponentKind

section \<open>Collaborators\<close>

text \<open>
  Everything the functions call outside the repository is a field of the environment:
  the template URL constants (declared in another file of the package),
  \<^verbatim>\<open>openuri.Open\<close> and \<^verbatim>\<open>ioutil.ReadAll\<close> (\<open>'r\<close> is the reader), the template engine
  (\<open>'t\<close> is a parsed template; the first argument of \<open>template_Parse\<close> is the list of
  options set before parsing), the universal deserializer for each target type (the content of
  the object passed in, after \<^verbatim>\<open>Decode\<close> returns), and the address part of an etcd peer entry.
\<close>

record ('r, 't) Env =
  defaultKASStatefulSetURL :: string
  defaultEtcdStatefulSetURL :: string
  defaultKCMStatefulSetURL :: string
  defaultKASServiceURL :: string
  defaultEtcdServiceURL :: string
  openuri_Open :: "string \<Rightarrow> error + 'r"
  ioutil_ReadAll :: "'r \<Rightarrow> error + string"
  template_Parse :: "string list \<Rightarrow> string \<Rightarrow> error + 't"
  template_Execute :: "'t \<Rightarrow> (string \<rightharpoonup> string) \<Rightarrow> error + string"
  decodeStatefulSet :: "string \<Rightarrow> error + StatefulSet"
  decodeService :: "string \<Rightarrow> error + Service"
  peerAddr :: "string \<Rightarrow> nat \<Rightarrow> string \<Rightarrow> string \<Rightarrow> string"

text \<open>
  \<^verbatim>\<open>cli.Create\<close> of the controller-runtime client: it takes the object and the store's state
  and answers with an error or nil, and the next state.
\<close>

type_synonym 's Client = "Object \<Rightarrow> 's \<Rightarrow> error option \<times> 's"

section \<open>Owner references\<close>

text \<open>
  \<^verbatim>\<open>controlplanev1.GroupVersion\<close>; group and version as the resource definition
  \<^verbatim>\<open>nestedetcds.controlplane.cluster.x-k8s.io\<close> gives them.
\<close>

definition controlplanev1_GroupVersion :: GroupVersion where
  "controlplanev1_GroupVersion =
     \<lparr>gv_Group = ''controlplane.cluster.x-k8s.io'', gv_Version = ''v1alpha4''\<rparr>"

definition WithKind :: "GroupVersion \<Rightarrow> ComponentKind \<Rightarrow> GroupVersionKind" where
  "WithKind gv kind = \<lparr>gvk_Group = gv_Group gv, gvk_Version = gv_Version gv, gvk_Kind = kind\<rparr>"

definition gv_String :: "string \<Rightarrow> string \<Rightarrow> string" where
  "gv_String grp ver = (if grp \<noteq> [] then grp @ ''/'' @ ver else ver)"

text \<open>
  \<^verbatim>\<open>metav1.NewControllerRef(owner, gvk)\<close> of apimachinery: a reference with the group and
  version of \<open>gvk\<close> as API version, its kind, the name and the UID of the owner, and both
  \<^verbatim>\<open>Controller\<close> and \<^verbatim>\<open>BlockOwnerDeletion\<close> pointing to true.
\<close>

definition NewControllerRef :: "ObjectMeta \<Rightarrow> GroupVersionKind \<Rightarrow> OwnerReference" where
  "NewControllerRef owner gvk =
     \<lparr>or_APIVersion = gv_String (gvk_Group gvk) (gvk_Version gvk),
      or_Kind = gvk_Kind gvk,
      or_Name = Name owner,
      or_UID = UID owner,
      or_Controller = Some True,
      or_BlockOwnerDeletion = Some True\<rparr>"

text \<open>
  \<^verbatim>\<open>SetOwnerReferences\<close> of \<^verbatim>\<open>metav1.ObjectMeta\<close> assigns the slice it is given to the
  field; a StatefulSet and a Service have it through their embedded metadata.
\<close>

definition SetOwnerReferences :: "OwnerReference list \<Rightarrow> ObjectMeta \<Rightarrow> ObjectMeta" where
  "SetOwnerReferences refs meta = meta\<lparr>OwnerReferences := refs\<rparr>"

definition sts_SetOwnerReferences :: "OwnerReference list \<Rightarrow> StatefulSet \<Rightarrow> StatefulSet" where
  "sts_SetOwnerReferences refs sts =
     sts\<lparr>sts_ObjectMeta := SetOwnerReferences refs (sts_ObjectMeta sts)\<rparr>"

definition svc_SetOwnerReferences :: "OwnerReference list \<Rightarrow> Service \<Rightarrow> Service" where
  "svc_SetOwnerReferences refs svc =
     svc\<lparr>svc_ObjectMeta := SetOwnerReferences refs (svc_ObjectMeta svc)\<rparr>"

fun obj_OwnerReferences :: "Object \<Rightarrow> OwnerReference list" where
  "obj_OwnerReferences (StsObj sts) = OwnerReferences (sts_ObjectMeta sts)"
| "obj_OwnerReferences (SvcObj svc) = OwnerReferences (svc_ObjectMeta svc)"

section \<open>Templates\<close>

text \<open>\<^verbatim>\<open>getTemplateArgs\<close>: the map literal with its four keys.\<close>

definition getTemplateArgs :: "ObjectMeta \<Rightarrow> string \<Rightarrow> string \<Rightarrow> (string \<rightharpoonup> string)" where
  "getTemplateArgs ncMeta controlPlaneName clusterName =
     [''componentName'' \<mapsto> Name ncMeta,
      ''componentNamespace'' \<mapsto> Namespace ncMeta,
      ''clusterName'' \<mapsto> clusterName,
      ''controlPlaneName'' \<mapsto> controlPlaneName]"

text \<open>\<^verbatim>\<open>yamlToObject\<close>: the decoder's error is returned as it is.\<close>

definition yamlToObject :: "(string \<Rightarrow> error + 'o) \<Rightarrow> string \<Rightarrow> error + 'o" where
  "yamlToObject decode yamlContent =
     (case decode yamlContent of Inl err \<Rightarrow> Inl err | Inr obj \<Rightarrow> Inr obj)"

text \<open>
  \<^verbatim>\<open>substituteTemplate\<close>: parse with the option \<^verbatim>\<open>missingkey=zero\<close>, then execute; an error
  of either step is returned.
\<close>

definition substituteTemplate ::
  "('r, 't) Env \<Rightarrow> (string \<rightharpoonup> string) \<Rightarrow> string \<Rightarrow> error + string" where
  "substituteTemplate env ctx tmpl =
     (case template_Parse env [''missingkey=zero''] tmpl of
        Inl tmplPrsErr \<Rightarrow> Inl tmplPrsErr
      | Inr t \<Rightarrow>
          (case template_Execute env t ctx of
             Inl err \<Rightarrow> Inl err
           | Inr written \<Rightarrow> Inr written))"

text \<open>\<^verbatim>\<open>fetchTemplate\<close>: open the URL, read everything.\<close>

definition fetchTemplate :: "('r, 't) Env \<Rightarrow> string \<Rightarrow> error + string" where
  "fetchTemplate env templateURL =
     (case openuri_Open env templateURL of
        Inl err \<Rightarrow> Inl err
      | Inr rep \<Rightarrow>
          (case ioutil_ReadAll env rep of
             Inl err \<Rightarrow> Inl err
           | Inr bodyBytes \<Rightarrow> Inr bodyBytes))"

section \<open>The etcd bootstrap argument\<close>

definition digitChars :: string where
  "digitChars = ''0123456789''"

fun showNat :: "nat \<Rightarrow> string" where
  "showNat n = (if n < 10 then [digitChars ! n] else showNat (n div 10) @ [digitChars ! (n mod 10)])"

declare showNat.simps [simp del]

fun joinWith :: "string \<Rightarrow> string list \<Rightarrow> string" where
  "joinWith sep [] = []"
| "joinWith sep [x] = x"
| "joinWith sep (x # y # ys) = x @ sep @ joinWith sep (y # ys)"

definition peerName :: "string \<Rightarrow> nat \<Rightarrow> string" where
  "peerName stsName i = stsName @ ''-'' @ showNat i"

text \<open>
  Modelled from the spec: \<^verbatim>\<open>genInitialClusterArgs\<close> is called by \<^verbatim>\<open>genStatefulSetObject\<close> and
  defined in another file of the package, which is missing here. The specification describes
  its result as N entries named \<^verbatim>\<open>{clusterName}-{i}\<close> for i in [0, N), each joined with the
  cluster's internal DNS suffix and client port, the entries joined by commas
  (\<^verbatim>\<open>demo-0=...,demo-1=...,demo-2=...\<close>). What follows the \<^verbatim>\<open>=\<close> of an entry is the
  environment's \<open>peerAddr\<close>.
\<close>

definition genInitialClusterArgs ::
  "('r, 't) Env \<Rightarrow> nat \<Rightarrow> string \<Rightarrow> string \<Rightarrow> string \<Rightarrow> string" where
  "genInitialClusterArgs env replicas stsName svcName svcNamespace =
     joinWith '',''
       (map (\<lambda>i. peerName stsName i @ ''='' @ peerAddr env stsName i svcName svcNamespace)
            [0..<replicas])"

section \<open>Generating the objects\<close>

text \<open>The choice of \<^verbatim>\<open>templateURL\<close> at the head of \<^verbatim>\<open>genStatefulSetObject\<close>.\<close>

definition statefulSetTemplateURL ::
  "('r, 't) Env \<Rightarrow> string \<Rightarrow> NestedComponentSpec \<Rightarrow> ComponentKind \<Rightarrow> failure + string" where
  "statefulSetTemplateURL env templatePath ncSpec ncKind =
     (if Version ncSpec = [] \<and> Channel ncSpec = [] then
        (case ncKind of
           APIServer \<Rightarrow> Inr (templatePath @ defaultKASStatefulSetURL env)
         | Etcd \<Rightarrow> Inr (templatePath @ defaultEtcdStatefulSetURL env)
         | ControllerManager \<Rightarrow> Inr (templatePath @ defaultKCMStatefulSetURL env)
         | OtherKind k \<Rightarrow> Inl (Panic ''Unreachable''))
      else Inl (Panic ''NOT IMPLEMENT YET''))"

text \<open>The choice of \<^verbatim>\<open>templateURL\<close> at the head of \<^verbatim>\<open>genServiceObject\<close>.\<close>

definition serviceTemplateURL ::
  "('r, 't) Env \<Rightarrow> string \<Rightarrow> NestedComponentSpec \<Rightarrow> ComponentKind \<Rightarrow> failure + string" where
  "serviceTemplateURL env templatePath ncSpec ncKind =
     (if Version ncSpec = [] \<and> Channel ncSpec = [] then
        (case ncKind of
           APIServer \<Rightarrow> Inr (templatePath @ defaultKASServiceURL env)
         | Etcd \<Rightarrow> Inr (templatePath @ defaultEtcdServiceURL env)
         | ControllerManager \<Rightarrow> Inl (Panic ''Unreachable'')
         | OtherKind k \<Rightarrow> Inl (Panic ''Unreachable''))
      else Inl (Panic ''NOT IMPLEMENT YET''))"

text \<open>\<^verbatim>\<open>genServiceObject\<close>.\<close>

definition genServiceObject ::
  "('r, 't) Env \<Rightarrow> string \<Rightarrow> ObjectMeta \<Rightarrow> NestedComponentSpec \<Rightarrow> ComponentKind \<Rightarrow>
     string \<Rightarrow> string \<Rightarrow> failure + Service" where
  "genServiceObject env templatePath ncMeta ncSpec ncKind controlPlaneName clusterName =
     (case serviceTemplateURL env templatePath ncSpec ncKind of
        Inl f \<Rightarrow> Inl f
      | Inr templateURL \<Rightarrow>
     (case fetchTemplate env templateURL of
        Inl err \<Rightarrow>
          Inl (Error (Errorf ''fail to fetch the default template for the %s service: %v''
                        [ArgKind ncKind, ArgErr err]))
      | Inr svcTmpl \<Rightarrow>
     (case substituteTemplate env
             (getTemplateArgs ncMeta controlPlaneName clusterName) svcTmpl of
        Inl err \<Rightarrow>
          Inl (Error (Errorf
            ''fail to substitute the default template for the nestedetcd Service: %v''
            [ArgErr err]))
      | Inr svcStr \<Rightarrow>
     (case yamlToObject (decodeService env) svcStr of
        Inl err \<Rightarrow>
          Inl (Error (Errorf ''fail to convert yaml file to Serivce: %v'' [ArgErr err]))
      | Inr svc \<Rightarrow> Inr svc))))"

text \<open>
  Steps 1 to 3 of \<^verbatim>\<open>genStatefulSetObject\<close>: the template chosen, fetched, substituted and
  decoded, before any field of the specification is applied to it.
\<close>

definition decodedStatefulSet ::
  "('r, 't) Env \<Rightarrow> string \<Rightarrow> ObjectMeta \<Rightarrow> NestedComponentSpec \<Rightarrow> ComponentKind \<Rightarrow>
     string \<Rightarrow> string \<Rightarrow> failure + StatefulSet" where
  "decodedStatefulSet env templatePath ncMeta ncSpec ncKind controlPlaneName clusterName =
     (case statefulSetTemplateURL env templatePath ncSpec ncKind of
        Inl f \<Rightarrow> Inl f
      | Inr templateURL \<Rightarrow>
     (case fetchTemplate env templateURL of
        Inl err \<Rightarrow>
          Inl (Error (Errorf ''fail to fetch the default template for the %s StatefulSet: %v''
                        [ArgKind ncKind, ArgErr err]))
      | Inr stsTmpl \<Rightarrow>
     (case substituteTemplate env
             (getTemplateArgs ncMeta controlPlaneName clusterName) stsTmpl of
        Inl err \<Rightarrow>
          Inl (Error (Errorf
            ''fail to substitute the default template for the %s StatefulSet: %v''
            [ArgKind ncKind, ArgErr err]))
      | Inr stsStr \<Rightarrow>
     (case yamlToObject (decodeStatefulSet env) stsStr of
        Inl err \<Rightarrow>
          Inl (Error (Errorf ''fail to convert yaml file to StatefulSet: %v'' [ArgErr err]))
      | Inr ncSts \<Rightarrow> Inr ncSts))))"

text \<open>
  Steps 5 and 6 of \<^verbatim>\<open>genStatefulSetObject\<close>: the resources of the specification go to every
  container, the replicas go to the StatefulSet when they are not 0, and for etcd the
  \<^verbatim>\<open>--initial-cluster\<close> option and its value are appended to the arguments of
  \<^verbatim>\<open>Containers[0]\<close>; indexing an empty slice panics.
\<close>

definition applyOverrides ::
  "('r, 't) Env \<Rightarrow> ObjectMeta \<Rightarrow> NestedComponentSpec \<Rightarrow> ComponentKind \<Rightarrow> string \<Rightarrow>
     StatefulSet \<Rightarrow> failure + StatefulSet" where
  "applyOverrides env ncMeta ncSpec ncKind clusterName ncSts0 =
     (let ncSts1 = ncSts0\<lparr>sts_Containers :=
                      map (\<lambda>c. c\<lparr>c_Resources := Resources ncSpec\<rparr>) (sts_Containers ncSts0)\<rparr>;
          ncSts2 = (if Replicas ncSpec \<noteq> 0
                    then ncSts1\<lparr>sts_Replicas := Some (Replicas ncSpec)\<rparr> else ncSts1)
      in if ncKind = Etcd then
           (let icaVal = genInitialClusterArgs env 1 clusterName clusterName (Namespace ncMeta)
            in case sts_Containers ncSts2 of
                 [] \<Rightarrow> Inl (Panic ''index out of range [0] with length 0'')
               | c # cs \<Rightarrow>
                   Inr (ncSts2\<lparr>sts_Containers :=
                          c\<lparr>c_Args := c_Args c @ [''--initial-cluster'', icaVal]\<rparr> # cs\<rparr>))
         else Inr ncSts2)"

text \<open>\<^verbatim>\<open>genStatefulSetObject\<close>.\<close>

definition genStatefulSetObject ::
  "('r, 't) Env \<Rightarrow> string \<Rightarrow> ObjectMeta \<Rightarrow> NestedComponentSpec \<Rightarrow> ComponentKind \<Rightarrow>
     string \<Rightarrow> string \<Rightarrow> failure + StatefulSet" where
  "genStatefulSetObject env templatePath ncMeta ncSpec ncKind controlPlaneName clusterName =
     (case decodedStatefulSet env templatePath ncMeta ncSpec ncKind
             controlPlaneName clusterName of
        Inl f \<Rightarrow> Inl f
      | Inr ncSts \<Rightarrow> applyOverrides env ncMeta ncSpec ncKind clusterName ncSts)"

section \<open>Creating the objects\<close>


text \<open>The owner reference computed at the head of \<^verbatim>\<open>createNestedComponentSts\<close>.\<close>

definition controllerRef :: "ObjectMeta \<Rightarrow> ComponentKind \<Rightarrow> OwnerReference" where
  "controllerRef ncMeta ncKind =
     NewControllerRef ncMeta (WithKind controlplanev1_GroupVersion ncKind)"

text \<open>
  \<^verbatim>\<open>createNestedComponentSts\<close>. The result is the error returned (or the panic), with the
  state of the object store afterwards.
\<close>

definition createNestedComponentSts ::
  "'s Client \<Rightarrow> ('r, 't) Env \<Rightarrow> ObjectMeta \<Rightarrow> NestedComponentSpec \<Rightarrow> ComponentKind \<Rightarrow>
     string \<Rightarrow> string \<Rightarrow> string \<Rightarrow> 's \<Rightarrow> failure option \<times> 's" where
  "createNestedComponentSts cli env ncMeta ncSpec ncKind controlPlaneName clusterName
       templatePath s =
     (let ownerRef = controllerRef ncMeta ncKind
      in if Version ncSpec \<noteq> [] \<and> Channel ncSpec \<noteq> [] then (Some (Panic ''NOT IMPLEMENT YET''), s)
         else
     (case genStatefulSetObject env templatePath ncMeta ncSpec ncKind
             controlPlaneName clusterName of
        Inl (Panic msg) \<Rightarrow> (Some (Panic msg), s)
      | Inl (Error err) \<Rightarrow>
          (Some (Error (Errorf ''fail to generate the Statefulset object: %v'' [ArgErr err])), s)
      | Inr ncSts \<Rightarrow>
          (if ncKind \<noteq> ControllerManager then
             (case genServiceObject env templatePath ncMeta ncSpec ncKind
                     controlPlaneName clusterName of
                Inl (Panic msg) \<Rightarrow> (Some (Panic msg), s)
              | Inl (Error err) \<Rightarrow>
                  (Some (Error (Errorf ''fail to generate the Service object: %v'' [ArgErr err])),
                   s)
              | Inr ncSvc \<Rightarrow>
                  (case cli (SvcObj (svc_SetOwnerReferences [ownerRef] ncSvc)) s of
                     (Some err, s') \<Rightarrow> (Some (Error err), s')
                   | (None, s') \<Rightarrow>
                       (case cli (StsObj (sts_SetOwnerReferences [ownerRef] ncSts)) s' of
                          (r, s'') \<Rightarrow> (map_option Error r, s''))))
           else
             (case cli (StsObj (sts_SetOwnerReferences [ownerRef] ncSts)) s of
                (r, s') \<Rightarrow> (map_option Error r, s')))))"

section \<open>Clients\<close>

text \<open>
  A client that passes every call on to \<open>cli\<close> and keeps, in the order of the calls, each
  object it was handed together with the answer \<open>cli\<close> gave.
\<close>

definition recording :: "'s Client \<Rightarrow> ('s \<times> (Object \<times> error option) list) Client" where
  "recording cli obj = (\<lambda>(s, calls).
     case cli obj s of (r, s') \<Rightarrow> (r, (s', calls @ [(obj, r)])))"

fun objKey :: "Object \<Rightarrow> string \<times> string \<times> string" where
  "objKey (StsObj sts) =
     (''StatefulSet'', Namespace (sts_ObjectMeta sts), Name (sts_ObjectMeta sts))"
| "objKey (SvcObj svc) =
     (''Service'', Namespace (svc_ObjectMeta svc), Name (svc_ObjectMeta svc))"

text \<open>
  The object store as the specification describes the collaborator:
  \<^verbatim>\<open>create(object) -> AlreadyExists | ok\<close>, objects identified by kind, namespace and name.
\<close>

definition storeCreate :: "Object list Client" where
  "storeCreate obj store =
     (if objKey obj \<in> set (map objKey store) then (Some AlreadyExists, store)
      else (None, store @ [obj]))"

section \<open>A fixture\<close>

text \<open>
  A small world to run the functions in: every URL opens, the template engine returns the
  text it is given, and the decoders answer with a fixed StatefulSet of two containers and a
  fixed Service.
\<close>

definition fixtureSts :: StatefulSet where
  "fixtureSts =
     \<lparr>sts_ObjectMeta = \<lparr>Name = ''demo-etcd'', Namespace = ''ns1'', UID = [],
                         OwnerReferences = []\<rparr>,
      sts_Replicas = Some 1,
      sts_Containers =
        [\<lparr>c_Name = ''etcd'', c_Args = [''--name=$(HOSTNAME)''],
          c_Resources = \<lparr>Limits = [''cpu'' \<mapsto> ''100m''], Requests = Map.empty\<rparr>\<rparr>,
         \<lparr>c_Name = ''sidecar'', c_Args = [],
          c_Resources = \<lparr>Limits = Map.empty, Requests = [''memory'' \<mapsto> ''64Mi'']\<rparr>\<rparr>]\<rparr>"

definition fixtureSvc :: Service where
  "fixtureSvc =
     \<lparr>svc_ObjectMeta = \<lparr>Name = ''demo-etcd'', Namespace = ''ns1'', UID = [],
                         OwnerReferences = []\<rparr>,
      svc_Spec = ''clusterIP: None''\<rparr>"

definition fixtureEnv :: "(string, string) Env" where
  "fixtureEnv =
     \<lparr>defaultKASStatefulSetURL = ''/kas-sts.yaml'',
      defaultEtcdStatefulSetURL = ''/etcd-sts.yaml'',
      defaultKCMStatefulSetURL = ''/kcm-sts.yaml'',
      defaultKASServiceURL = ''/kas-svc.yaml'',
      defaultEtcdServiceURL = ''/etcd-svc.yaml'',
      openuri_Open = (\<lambda>url. Inr url),
      ioutil_ReadAll = (\<lambda>rep. Inr rep),
      template_Parse = (\<lambda>opts tmpl. Inr tmpl),
      template_Execute = (\<lambda>t ctx. Inr t),
      decodeStatefulSet = (\<lambda>yaml. Inr fixtureSts),
      decodeService = (\<lambda>yaml. Inr fixtureSvc),
      peerAddr = (\<lambda>stsName i svcName ns.
        ''https://'' @ peerName stsName i @ ''.'' @ svcName @ ''.'' @ ns @ ''.svc:2380'')\<rparr>"

definition fixtureMeta :: ObjectMeta where
  "fixtureMeta = \<lparr>Name = ''demo-etcd'', Namespace = ''ns1'', UID = ''uid-1'',
                  OwnerReferences = []\<rparr>"

definition fixtureSpec :: NestedComponentSpec where
  "fixtureSpec =
     \<lparr>Version = [], Channel = [], Replicas = 0,
      Resources = \<lparr>Limits = [''cpu'' \<mapsto> ''500m''], Requests = Map.empty\<rparr>,
      Patches = []\<rparr>"

text \<open>
  The same world with a template whose first container already carries an
  \<^verbatim>\<open>--initial-cluster\<close> option.
\<close>

definition flaggedSts :: StatefulSet where
  "flaggedSts = fixtureSts\<lparr>sts_Containers :=
     [\<lparr>c_Name = ''etcd'', c_Args = [''--initial-cluster'', ''old-0=https://old-0.old''],
       c_Resources = \<lparr>Limits = Map.empty, Requests = Map.empty\<rparr>\<rparr>]\<rparr>"

definition flaggedEnv :: "(string, string) Env" where
  "flaggedEnv = fixtureEnv\<lparr>decodeStatefulSet := (\<lambda>yaml. Inr flaggedSts)\<rparr>"

section \<open>Unfolding and evaluation\<close>

lemmas fixture_defs =
  fixtureEnv_def fixtureSts_def fixtureSvc_def fixtureMeta_def fixtureSpec_def

lemmas gen_defs =
  genStatefulSetObject_def decodedStatefulSet_def applyOverrides_def statefulSetTemplateURL_def
  genServiceObject_def serviceTemplateURL_def fetchTemplate_def substituteTemplate_def
  yamlToObject_def getTemplateArgs_def genInitialClusterArgs_def peerName_def digitChars_def

lemmas create_defs =
  createNestedComponentSts_def controllerRef_def NewControllerRef_def WithKind_def
  controlplanev1_GroupVersion_def gv_String_def sts_SetOwnerReferences_def
  svc_SetOwnerReferences_def SetOwnerReferences_def recording_def storeCreate_def Let_def

lemma showNat_0: "showNat 0 = ''0''"
  by (simp add: showNat.simps[of 0] digitChars_def)

section \<open>Rendering\<close>

text \<open>
  \<^verbatim>\<open>substituteTemplate\<close> fails exactly when parsing fails or executing the parsed template
  fails, with the error of the step that failed.
\<close>

lemma substituteTemplate_fails_iff:
  "substituteTemplate env ctx tmpl = Inl err \<longleftrightarrow>
     template_Parse env [''missingkey=zero''] tmpl = Inl err \<or>
     (\<exists>t. template_Parse env [''missingkey=zero''] tmpl = Inr t \<and>
          template_Execute env t ctx = Inl err)"
  by (auto simp: substituteTemplate_def split: sum.splits)

section \<open>The etcd bootstrap argument, evaluated\<close>

lemma joinWith_snoc:
  "joinWith sep (xs @ [x]) = (if xs = [] then x else joinWith sep xs @ sep @ x)"
  by (induction sep xs rule: joinWith.induct) auto

text \<open>One more peer adds a comma and the entry of the new peer.\<close>

lemma genInitialClusterArgs_Suc:
  "genInitialClusterArgs env (Suc n) stsName svcName ns =
     (if n = 0 then peerName stsName 0 @ ''='' @ peerAddr env stsName 0 svcName ns
      else genInitialClusterArgs env n stsName svcName ns @ '','' @
           peerName stsName n @ ''='' @ peerAddr env stsName n svcName ns)"
  by (simp add: genInitialClusterArgs_def joinWith_snoc)

lemma genInitialClusterArgs_three_peers:
  "genInitialClusterArgs fixtureEnv 3 ''demo'' ''demo'' ''ns1'' =
     ''demo-0=https://demo-0.demo.ns1.svc:2380,demo-1=https://demo-1.demo.ns1.svc:2380,demo-2=https://demo-2.demo.ns1.svc:2380''"
  by code_simp

lemma genInitialClusterArgs_1:
  "genInitialClusterArgs env 1 stsName svcName ns =
     stsName @ ''-0='' @ peerAddr env stsName 0 svcName ns"
  by (simp add: genInitialClusterArgs_def peerName_def showNat_0)

lemma genInitialClusterArgs_1_not_flag:
  "genInitialClusterArgs env 1 stsName svcName ns \<noteq> ''--initial-cluster''"
proof
  assume eq: "genInitialClusterArgs env 1 stsName svcName ns = ''--initial-cluster''"
  have "CHR ''='' \<in> set (genInitialClusterArgs env 1 stsName svcName ns)"
    by (subst genInitialClusterArgs_1) simp
  with eq show False by simp
qed

section \<open>What applying the overrides changes\<close>

lemma genStatefulSetObject_Inr:
  "genStatefulSetObject env tp ncMeta ncSpec ncKind cp cn = Inr ncSts \<Longrightarrow>
   \<exists>tmplSts. decodedStatefulSet env tp ncMeta ncSpec ncKind cp cn = Inr tmplSts \<and>
      applyOverrides env ncMeta ncSpec ncKind cn tmplSts = Inr ncSts"
  by (auto simp: genStatefulSetObject_def split: sum.splits)

lemma applyOverrides_replicas:
  "applyOverrides env ncMeta ncSpec ncKind cn tmplSts = Inr ncSts \<Longrightarrow>
   sts_Replicas ncSts =
     (if Replicas ncSpec \<noteq> 0 then Some (Replicas ncSpec) else sts_Replicas tmplSts)"
  by (auto simp: applyOverrides_def Let_def split: if_splits list.splits)

lemma applyOverrides_resources:
  "applyOverrides env ncMeta ncSpec ncKind cn tmplSts = Inr ncSts \<Longrightarrow>
   map c_Resources (sts_Containers ncSts) =
     replicate (length (sts_Containers tmplSts)) (Resources ncSpec)"
  by (auto simp: applyOverrides_def Let_def map_replicate_const comp_def
           split: if_splits list.splits)

lemma applyOverrides_resources_all:
  "applyOverrides env ncMeta ncSpec ncKind cn tmplSts = Inr ncSts \<Longrightarrow>
   c \<in> set (sts_Containers ncSts) \<Longrightarrow> c_Resources c = Resources ncSpec"
  by (auto simp: applyOverrides_def Let_def split: if_splits list.splits)

lemma applyOverrides_names:
  "applyOverrides env ncMeta ncSpec ncKind cn tmplSts = Inr ncSts \<Longrightarrow>
   map c_Name (sts_Containers ncSts) = map c_Name (sts_Containers tmplSts)"
  by (auto simp: applyOverrides_def Let_def comp_def split: if_splits list.splits)

lemma applyOverrides_args_other:
  "applyOverrides env ncMeta ncSpec ncKind cn tmplSts = Inr ncSts \<Longrightarrow> ncKind \<noteq> Etcd \<Longrightarrow>
   map c_Args (sts_Containers ncSts) = map c_Args (sts_Containers tmplSts)"
  by (auto simp: applyOverrides_def Let_def comp_def split: if_splits list.splits)

lemma applyOverrides_args_etcd:
  "applyOverrides env ncMeta ncSpec Etcd cn tmplSts = Inr ncSts \<Longrightarrow>
   \<exists>c cs c' cs'. sts_Containers tmplSts = c # cs \<and> sts_Containers ncSts = c' # cs' \<and>
      c_Args c' = c_Args c @
        [''--initial-cluster'', genInitialClusterArgs env 1 cn cn (Namespace ncMeta)] \<and>
      map c_Args cs' = map c_Args cs"
  by (auto simp: applyOverrides_def Let_def comp_def split: if_splits list.splits)

lemma applyOverrides_etcd_no_container:
  "sts_Containers tmplSts = [] \<Longrightarrow>
   applyOverrides env ncMeta ncSpec Etcd cn tmplSts =
     Inl (Panic ''index out of range [0] with length 0'')"
  by (simp add: applyOverrides_def Let_def)

lemma applyOverrides_again_other:
  "applyOverrides env ncMeta ncSpec ncKind cn tmplSts = Inr ncSts \<Longrightarrow> ncKind \<noteq> Etcd \<Longrightarrow>
   applyOverrides env ncMeta ncSpec ncKind cn ncSts = Inr ncSts"
  by (auto simp: applyOverrides_def Let_def comp_def split: if_splits list.splits)

lemma applyOverrides_again_etcd:
  "applyOverrides env ncMeta ncSpec Etcd cn tmplSts = Inr ncSts \<Longrightarrow>
   \<exists>c cs. sts_Containers ncSts = c # cs \<and>
     applyOverrides env ncMeta ncSpec Etcd cn ncSts =
       Inr (ncSts\<lparr>sts_Containers :=
              c\<lparr>c_Args := c_Args c @
                 [''--initial-cluster'', genInitialClusterArgs env 1 cn cn (Namespace ncMeta)]\<rparr>
              # cs\<rparr>)"
  by (auto simp: applyOverrides_def Let_def comp_def split: if_splits list.splits)

section \<open>The calls made to the object store\<close>

text \<open>
  Run against a recording client from an empty record, \<^verbatim>\<open>createNestedComponentSts\<close> ends in
  one of four ways: no call at all and a failure; for the controller manager one call, with the
  StatefulSet; otherwise one call with the Service that the store refused, or the Service
  accepted and then the StatefulSet.
\<close>

lemma createNestedComponentSts_calls:
  assumes run: "createNestedComponentSts (recording cli) env ncMeta ncSpec ncKind cp cn tp (s, [])
                  = (r, (s', calls))"
  shows "(calls = [] \<and> s' = s \<and> r \<noteq> None) \<or>
         (ncKind = ControllerManager \<and>
            (\<exists>ncSts x. genStatefulSetObject env tp ncMeta ncSpec ncKind cp cn = Inr ncSts \<and>
               calls = [(StsObj (sts_SetOwnerReferences [controllerRef ncMeta ncKind] ncSts), x)] \<and>
               r = map_option Error x)) \<or>
         (ncKind \<noteq> ControllerManager \<and>
            (\<exists>ncSts ncSvc e. genStatefulSetObject env tp ncMeta ncSpec ncKind cp cn = Inr ncSts \<and>
               genServiceObject env tp ncMeta ncSpec ncKind cp cn = Inr ncSvc \<and>
               calls = [(SvcObj (svc_SetOwnerReferences [controllerRef ncMeta ncKind] ncSvc),
                         Some e)] \<and>
               r = Some (Error e))) \<or>
         (ncKind \<noteq> ControllerManager \<and>
            (\<exists>ncSts ncSvc x. genStatefulSetObject env tp ncMeta ncSpec ncKind cp cn = Inr ncSts \<and>
               genServiceObject env tp ncMeta ncSpec ncKind cp cn = Inr ncSvc \<and>
               calls = [(SvcObj (svc_SetOwnerReferences [controllerRef ncMeta ncKind] ncSvc), None),
                        (StsObj (sts_SetOwnerReferences [controllerRef ncMeta ncKind] ncSts), x)] \<and>
               r = map_option Error x))"
  using run
  by (auto simp: createNestedComponentSts_def Let_def recording_def
           split: if_splits sum.splits failure.splits prod.splits option.splits)

text \<open>Recording changes neither the result nor the store.\<close>

lemma recording_simulates:
  "createNestedComponentSts (recording cli) env ncMeta ncSpec ncKind cp cn tp (s, calls0)
     = (r, (s', calls)) \<Longrightarrow>
   createNestedComponentSts cli env ncMeta ncSpec ncKind cp cn tp s = (r, s')"
  by (auto simp: createNestedComponentSts_def Let_def recording_def
           split: if_splits sum.splits failure.splits prod.splits option.splits)

lemma owner_of_handed [simp]:
  "OwnerReferences (sts_ObjectMeta (sts_SetOwnerReferences refs sts)) = refs"
  "OwnerReferences (svc_ObjectMeta (svc_SetOwnerReferences refs svc)) = refs"
  by (simp_all add: sts_SetOwnerReferences_def svc_SetOwnerReferences_def SetOwnerReferences_def)

lemma controllerRef_fields:
  "or_Name (controllerRef ncMeta ncKind) = Name ncMeta"
  "or_UID (controllerRef ncMeta ncKind) = UID ncMeta"
  "or_Kind (controllerRef ncMeta ncKind) = ncKind"
  "or_APIVersion (controllerRef ncMeta ncKind) = ''controlplane.cluster.x-k8s.io/v1alpha4''"
  "or_Controller (controllerRef ncMeta ncKind) = Some True"
  by (simp_all add: controllerRef_def NewControllerRef_def WithKind_def
        controlplanev1_GroupVersion_def gv_String_def)

text \<open>
  When both objects are generated for a kind other than the controller manager, the first call
  hands the Service over, whatever the store answers.
\<close>

lemma createNestedComponentSts_service_first:
  assumes run: "createNestedComponentSts (recording cli) env ncMeta ncSpec ncKind cp cn tp (s, [])
                  = (r, (s', calls))"
    and kind: "ncKind \<noteq> ControllerManager"
    and sts: "genStatefulSetObject env tp ncMeta ncSpec ncKind cp cn = Inr ncSts"
    and svc: "genServiceObject env tp ncMeta ncSpec ncKind cp cn = Inr ncSvc"
  shows "\<exists>rest.
           calls = (SvcObj (svc_SetOwnerReferences [controllerRef ncMeta ncKind] ncSvc),
                    fst (cli (SvcObj (svc_SetOwnerReferences [controllerRef ncMeta ncKind] ncSvc)) s))
                     # rest"
proof -
  have vc: "\<not> (Version ncSpec \<noteq> [] \<and> Channel ncSpec \<noteq> [])"
    using sts
    by (auto simp: genStatefulSetObject_def decodedStatefulSet_def statefulSetTemplateURL_def
             split: if_splits)
  show ?thesis
    using run kind vc
    by (auto simp: createNestedComponentSts_def Let_def recording_def sts svc
             split: prod.splits option.splits)
qed

text \<open>For the controller manager the generated StatefulSet is the one object handed over.\<close>

lemma createNestedComponentSts_kcm_only_sts:
  assumes run: "createNestedComponentSts (recording cli) env ncMeta ncSpec ncKind cp cn tp (s, [])
                  = (r, (s', calls))"
    and kind: "ncKind = ControllerManager"
    and sts: "genStatefulSetObject env tp ncMeta ncSpec ncKind cp cn = Inr ncSts"
  shows "\<exists>x. calls = [(StsObj (sts_SetOwnerReferences [controllerRef ncMeta ncKind] ncSts), x)]"
proof -
  have vc: "\<not> (Version ncSpec \<noteq> [] \<and> Channel ncSpec \<noteq> [])"
    using sts
    by (auto simp: genStatefulSetObject_def decodedStatefulSet_def statefulSetTemplateURL_def
             split: if_splits)
  show ?thesis
    using run vc sts unfolding kind
    by (auto simp: createNestedComponentSts_def Let_def recording_def
             split: prod.splits option.splits)
qed

text \<open>When the Service cannot be generated, nothing is handed over.\<close>

lemma createNestedComponentSts_no_service_generated:
  assumes run: "createNestedComponentSts (recording cli) env ncMeta ncSpec ncKind cp cn tp (s, [])
                  = (r, (s', calls))"
    and kind: "ncKind \<noteq> ControllerManager"
    and svc: "genServiceObject env tp ncMeta ncSpec ncKind cp cn = Inl f"
  shows "calls = [] \<and> r \<noteq> None"
  using run kind svc
  by (auto simp: createNestedComponentSts_def Let_def recording_def
           split: if_splits sum.splits failure.splits prod.splits option.splits)

text \<open>
  For the API server and for etcd, with neither version nor channel set, the Service is
  generated as soon as its template is fetched, substituted and decoded.
\<close>

lemma genServiceObject_generated:
  assumes "ncKind = APIServer \<or> ncKind = Etcd"
    and "Version ncSpec = []" and "Channel ncSpec = []"
    and "fetchTemplate env (tp @ (if ncKind = APIServer then defaultKASServiceURL env
                                  else defaultEtcdServiceURL env)) = Inr svcTmpl"
    and "substituteTemplate env (getTemplateArgs ncMeta cp cn) svcTmpl = Inr svcStr"
    and "decodeService env svcStr = Inr svc"
  shows "genServiceObject env tp ncMeta ncSpec ncKind cp cn = Inr svc"
  using assms by (auto simp: genServiceObject_def serviceTemplateURL_def yamlToObject_def)

section \<open>Runs of the fixture\<close>

lemma fixture_decoded:
  "Version spec = [] \<Longrightarrow> Channel spec = [] \<Longrightarrow> kind \<in> {APIServer, Etcd, ControllerManager} \<Longrightarrow>
   decodedStatefulSet fixtureEnv [] fixtureMeta spec kind ''cp'' ''demo'' = Inr fixtureSts"
  by (auto simp: gen_defs fixtureEnv_def)

lemma fixture_run_etcd:
  "\<exists>sts. createNestedComponentSts (recording storeCreate) fixtureEnv fixtureMeta fixtureSpec Etcd
     ''cp'' ''demo'' [] ([], []) =
   (None,
    ([SvcObj (svc_SetOwnerReferences [controllerRef fixtureMeta Etcd] fixtureSvc), StsObj sts],
     [(SvcObj (svc_SetOwnerReferences [controllerRef fixtureMeta Etcd] fixtureSvc), None),
      (StsObj sts, None)]))"
  by (simp add: gen_defs create_defs fixture_defs showNat_0)

lemma fixture_run_kcm:
  "\<exists>sts. createNestedComponentSts (recording storeCreate) fixtureEnv fixtureMeta fixtureSpec
     ControllerManager ''cp'' ''demo'' [] ([], []) =
   (None, ([StsObj sts], [(StsObj sts, None)]))"
  by (simp add: gen_defs create_defs fixture_defs)

lemma fixture_run_svc_exists:
  "createNestedComponentSts (recording storeCreate) fixtureEnv fixtureMeta fixtureSpec Etcd
     ''cp'' ''demo'' [] ([SvcObj fixtureSvc], []) =
   (Some (Error AlreadyExists),
    ([SvcObj fixtureSvc],
     [(SvcObj (svc_SetOwnerReferences [controllerRef fixtureMeta Etcd] fixtureSvc),
       Some AlreadyExists)]))"
  by (simp add: gen_defs create_defs fixture_defs showNat_0)

section \<open>Replica count\<close>

text \<open>
  C1. Whenever \<^verbatim>\<open>genStatefulSetObject\<close> returns a StatefulSet, its replica count is the
  \<^verbatim>\<open>Replicas\<close> of the specification when that is not 0, and is the replica count of the
  decoded template, untouched, when it is 0: an absent (zero) \<^verbatim>\<open>Replicas\<close> is never written
  into the StatefulSet.
\<close>

theorem replicas_override:
  assumes "genStatefulSetObject env tp ncMeta ncSpec ncKind cp cn = Inr ncSts"
  shows "\<exists>tmplSts. decodedStatefulSet env tp ncMeta ncSpec ncKind cp cn = Inr tmplSts \<and>
           (Replicas ncSpec \<noteq> 0 \<longrightarrow> sts_Replicas ncSts = Some (Replicas ncSpec)) \<and>
           (Replicas ncSpec = 0 \<longrightarrow> sts_Replicas ncSts = sts_Replicas tmplSts) \<and>
           (Replicas ncSpec = 0 \<longrightarrow> sts_Replicas tmplSts \<noteq> Some 0 \<longrightarrow>
              sts_Replicas ncSts \<noteq> Some 0)"
proof -
  from assms obtain tmplSts where
    d: "decodedStatefulSet env tp ncMeta ncSpec ncKind cp cn = Inr tmplSts" and
    a: "applyOverrides env ncMeta ncSpec ncKind cn tmplSts = Inr ncSts"
    using genStatefulSetObject_Inr by blast
  from applyOverrides_replicas[OF a] d show ?thesis by auto
qed

text \<open>With \<^verbatim>\<open>Replicas\<close> 3 the count is 3; with 0 it stays the template's 1.\<close>

theorem replicas_override_witness:
  "(\<exists>ncSts. genStatefulSetObject fixtureEnv [] fixtureMeta (fixtureSpec\<lparr>Replicas := 3\<rparr>)
              Etcd ''cp'' ''demo'' = Inr ncSts \<and> sts_Replicas ncSts = Some 3) \<and>
   (\<exists>ncSts. genStatefulSetObject fixtureEnv [] fixtureMeta fixtureSpec
              Etcd ''cp'' ''demo'' = Inr ncSts \<and> sts_Replicas ncSts = Some 1)"
proof -
  have d: "decodedStatefulSet fixtureEnv [] fixtureMeta fixtureSpec Etcd ''cp'' ''demo''
             = Inr fixtureSts"
    by (rule fixture_decoded) (simp_all add: fixtureSpec_def)
  obtain a where a: "genStatefulSetObject fixtureEnv [] fixtureMeta (fixtureSpec\<lparr>Replicas := 3\<rparr>)
              Etcd ''cp'' ''demo'' = Inr a"
    by (simp add: gen_defs fixture_defs)
  obtain b where b: "genStatefulSetObject fixtureEnv [] fixtureMeta fixtureSpec
              Etcd ''cp'' ''demo'' = Inr b"
    by (simp add: gen_defs fixture_defs)
  from replicas_override[OF a] have "sts_Replicas a = Some 3"
    by (simp add: fixtureSpec_def)
  moreover have "Replicas fixtureSpec = 0"
    by (simp add: fixtureSpec_def)
  with replicas_override[OF b] d have "sts_Replicas b = sts_Replicas fixtureSts"
    by auto
  then have "sts_Replicas b = Some 1"
    by (simp add: fixtureSts_def)
  ultimately show ?thesis using a b by simp
qed

section \<open>Version and channel\<close>

text \<open>
  C2, as the code has it. When the version or the channel of the specification is set, the
  generation of the StatefulSet and of the Service both stop in the panic
  \<^verbatim>\<open>NOT IMPLEMENT YET\<close>, and so does \<^verbatim>\<open>createNestedComponentSts\<close>, for every kind and every
  client: no error value is returned, the default template is not used, and the object store is
  left as it was.
\<close>

theorem version_or_channel_panics:
  assumes "Version ncSpec \<noteq> [] \<or> Channel ncSpec \<noteq> []"
  shows "genStatefulSetObject env tp ncMeta ncSpec ncKind cp cn = Inl (Panic ''NOT IMPLEMENT YET'') \<and>
         genServiceObject env tp ncMeta ncSpec ncKind cp cn = Inl (Panic ''NOT IMPLEMENT YET'') \<and>
         createNestedComponentSts cli env ncMeta ncSpec ncKind cp cn tp s =
           (Some (Panic ''NOT IMPLEMENT YET''), s)"
proof -
  have g: "genStatefulSetObject env tp ncMeta ncSpec ncKind cp cn = Inl (Panic ''NOT IMPLEMENT YET'')"
    using assms
    by (auto simp: genStatefulSetObject_def decodedStatefulSet_def statefulSetTemplateURL_def)
  have v: "genServiceObject env tp ncMeta ncSpec ncKind cp cn = Inl (Panic ''NOT IMPLEMENT YET'')"
    using assms by (auto simp: genServiceObject_def serviceTemplateURL_def)
  have c: "createNestedComponentSts cli env ncMeta ncSpec ncKind cp cn tp s =
           (Some (Panic ''NOT IMPLEMENT YET''), s)"
    by (simp add: createNestedComponentSts_def g Let_def)
  from g v c show ?thesis by simp
qed

text \<open>Only the channel set, for the API server.\<close>

theorem version_or_channel_panics_witness:
  "Version (fixtureSpec\<lparr>Channel := ''stable''\<rparr>) = [] \<and>
   Channel (fixtureSpec\<lparr>Channel := ''stable''\<rparr>) = ''stable'' \<and>
   createNestedComponentSts storeCreate fixtureEnv fixtureMeta (fixtureSpec\<lparr>Channel := ''stable''\<rparr>)
      APIServer ''cp'' ''demo'' [] [] = (Some (Panic ''NOT IMPLEMENT YET''), [])"
  using version_or_channel_panics[of "fixtureSpec\<lparr>Channel := ''stable''\<rparr>" fixtureEnv "[]"
      fixtureMeta APIServer "''cp''" "''demo''" storeCreate "[]"]
  by (simp add: fixtureSpec_def)

text \<open>
  The claim asks for an error returned to the caller and no panic. With the version set the
  generation panics, and with both set the whole call panics.
\<close>

theorem version_set_panics_counterexample:
  "genStatefulSetObject fixtureEnv [] fixtureMeta (fixtureSpec\<lparr>Version := ''1.2.3''\<rparr>)
      Etcd ''cp'' ''demo'' = Inl (Panic ''NOT IMPLEMENT YET'') \<and>
   createNestedComponentSts storeCreate fixtureEnv fixtureMeta
      (fixtureSpec\<lparr>Version := ''1.2.3'', Channel := ''stable''\<rparr>)
      Etcd ''cp'' ''demo'' [] [] = (Some (Panic ''NOT IMPLEMENT YET''), [])"
  by (simp add: gen_defs createNestedComponentSts_def fixtureSpec_def)

section \<open>The initial cluster of etcd\<close>

text \<open>
  C4, as the code has it. Whenever \<^verbatim>\<open>genStatefulSetObject\<close> returns a StatefulSet for etcd,
  the arguments of its first container are those of the template's first container followed by
  \<^verbatim>\<open>--initial-cluster\<close> and the peer list for one peer, which is the single entry
  \<^verbatim>\<open>clusterName-0=address\<close>. The option therefore occurs once more than in the template,
  and exactly once when the template has none. The arguments of the other containers, and of
  every container for the other kinds, are those of the template.
\<close>

theorem etcd_initial_cluster_appended:
  assumes "genStatefulSetObject env tp ncMeta ncSpec ncKind cp cn = Inr ncSts"
  shows "\<exists>tmplSts. decodedStatefulSet env tp ncMeta ncSpec ncKind cp cn = Inr tmplSts \<and>
           (ncKind = Etcd \<longrightarrow>
              (\<exists>c cs c' cs'. sts_Containers tmplSts = c # cs \<and> sts_Containers ncSts = c' # cs' \<and>
                 c_Args c' = c_Args c @
                   [''--initial-cluster'', cn @ ''-0='' @ peerAddr env cn 0 cn (Namespace ncMeta)] \<and>
                 cn @ ''-0='' @ peerAddr env cn 0 cn (Namespace ncMeta) =
                   genInitialClusterArgs env 1 cn cn (Namespace ncMeta) \<and>
                 count_list (c_Args c') ''--initial-cluster'' =
                   count_list (c_Args c) ''--initial-cluster'' + 1 \<and>
                 (''--initial-cluster'' \<notin> set (c_Args c) \<longrightarrow>
                    count_list (c_Args c') ''--initial-cluster'' = 1) \<and>
                 map c_Args cs' = map c_Args cs)) \<and>
           (ncKind \<noteq> Etcd \<longrightarrow>
              map c_Args (sts_Containers ncSts) = map c_Args (sts_Containers tmplSts))"
proof -
  from assms obtain tmplSts where
    d: "decodedStatefulSet env tp ncMeta ncSpec ncKind cp cn = Inr tmplSts" and
    a: "applyOverrides env ncMeta ncSpec ncKind cn tmplSts = Inr ncSts"
    using genStatefulSetObject_Inr by blast
  let ?v = "genInitialClusterArgs env 1 cn cn (Namespace ncMeta)"
  have etcd: "\<exists>c cs c' cs'. sts_Containers tmplSts = c # cs \<and> sts_Containers ncSts = c' # cs' \<and>
                 c_Args c' = c_Args c @
                   [''--initial-cluster'', cn @ ''-0='' @ peerAddr env cn 0 cn (Namespace ncMeta)] \<and>
                 cn @ ''-0='' @ peerAddr env cn 0 cn (Namespace ncMeta) = ?v \<and>
                 count_list (c_Args c') ''--initial-cluster'' =
                   count_list (c_Args c) ''--initial-cluster'' + 1 \<and>
                 (''--initial-cluster'' \<notin> set (c_Args c) \<longrightarrow>
                    count_list (c_Args c') ''--initial-cluster'' = 1) \<and>
                 map c_Args cs' = map c_Args cs" if k: "ncKind = Etcd"
  proof -
    from a k obtain c cs c' cs' where
      t: "sts_Containers tmplSts = c # cs" and r: "sts_Containers ncSts = c' # cs'" and
      args: "c_Args c' = c_Args c @ [''--initial-cluster'', ?v]" and
      rest: "map c_Args cs' = map c_Args cs"
      using applyOverrides_args_etcd by blast
    have v: "?v = cn @ ''-0='' @ peerAddr env cn 0 cn (Namespace ncMeta)"
      by (rule genInitialClusterArgs_1)
    have ne: "?v \<noteq> ''--initial-cluster''"
      by (rule genInitialClusterArgs_1_not_flag)
    have cnt: "count_list (c_Args c') ''--initial-cluster'' =
                 count_list (c_Args c) ''--initial-cluster'' + 1"
      using ne by (simp add: args)
    have one: "count_list (c_Args c') ''--initial-cluster'' = 1"
      if "''--initial-cluster'' \<notin> set (c_Args c)"
      using that cnt by (simp add: count_list_0_iff)
    from t r args rest v cnt one show ?thesis by (metis (no_types))
  qed
  have other: "map c_Args (sts_Containers ncSts) = map c_Args (sts_Containers tmplSts)"
    if "ncKind \<noteq> Etcd"
    using applyOverrides_args_other[OF a that] .
  from d etcd other show ?thesis by blast
qed

text \<open>
  The fixture's template has no such option: for etcd there is exactly one after generation;
  for the API server the arguments are those of the template.
\<close>

theorem etcd_initial_cluster_appended_witness:
  "(\<exists>ncSts. genStatefulSetObject fixtureEnv [] fixtureMeta fixtureSpec Etcd ''cp'' ''demo''
             = Inr ncSts \<and>
           c_Args (hd (sts_Containers ncSts)) =
             [''--name=$(HOSTNAME)'', ''--initial-cluster'',
              ''demo-0=https://demo-0.demo.ns1.svc:2380''] \<and>
           count_list (c_Args (hd (sts_Containers ncSts))) ''--initial-cluster'' = 1) \<and>
   (\<exists>ncSts. genStatefulSetObject fixtureEnv [] fixtureMeta fixtureSpec APIServer ''cp'' ''demo''
             = Inr ncSts \<and>
           map c_Args (sts_Containers ncSts) = map c_Args (sts_Containers fixtureSts))"
proof -
  have d: "decodedStatefulSet fixtureEnv [] fixtureMeta fixtureSpec kind ''cp'' ''demo''
             = Inr fixtureSts" if "kind \<in> {APIServer, Etcd, ControllerManager}" for kind
    using that by (intro fixture_decoded) (simp_all add: fixtureSpec_def)
  obtain a where a: "genStatefulSetObject fixtureEnv [] fixtureMeta fixtureSpec
              Etcd ''cp'' ''demo'' = Inr a"
    by (simp add: gen_defs fixture_defs)
  obtain b where b: "genStatefulSetObject fixtureEnv [] fixtureMeta fixtureSpec
              APIServer ''cp'' ''demo'' = Inr b"
    by (simp add: gen_defs fixture_defs)
  from etcd_initial_cluster_appended[OF a] d[of Etcd]
  obtain c cs c' cs' where
    t: "sts_Containers fixtureSts = c # cs" and r: "sts_Containers a = c' # cs'" and
    args: "c_Args c' = c_Args c @ [''--initial-cluster'',
             ''demo'' @ ''-0='' @ peerAddr fixtureEnv ''demo'' 0 ''demo'' (Namespace fixtureMeta)]" and
    one: "''--initial-cluster'' \<notin> set (c_Args c) \<longrightarrow>
            count_list (c_Args c') ''--initial-cluster'' = 1"
    by auto
  from t have c: "c_Args c = [''--name=$(HOSTNAME)'']"
    by (auto simp: fixtureSts_def)
  have "c_Args (hd (sts_Containers a)) =
          [''--name=$(HOSTNAME)'', ''--initial-cluster'',
           ''demo-0=https://demo-0.demo.ns1.svc:2380'']"
    using r args c by (simp add: fixtureEnv_def fixtureMeta_def peerName_def showNat_0)
  moreover have "count_list (c_Args (hd (sts_Containers a))) ''--initial-cluster'' = 1"
    using one r c by simp
  moreover from etcd_initial_cluster_appended[OF b] d[of APIServer]
  have "map c_Args (sts_Containers b) = map c_Args (sts_Containers fixtureSts)"
    by auto
  ultimately show ?thesis using a b by simp
qed

text \<open>
  A template whose first container already has the option: after generation the argument list
  holds it twice, not exactly once.
\<close>

theorem initial_cluster_twice_counterexample:
  "genStatefulSetObject flaggedEnv [] fixtureMeta fixtureSpec Etcd ''cp'' ''demo'' =
     Inr \<lparr>sts_ObjectMeta = sts_ObjectMeta fixtureSts,
          sts_Replicas = Some 1,
          sts_Containers =
            [\<lparr>c_Name = ''etcd'',
              c_Args = [''--initial-cluster'', ''old-0=https://old-0.old'',
                        ''--initial-cluster'', ''demo-0=https://demo-0.demo.ns1.svc:2380''],
              c_Resources = Resources fixtureSpec\<rparr>]\<rparr> \<and>
   count_list [''--initial-cluster'', ''old-0=https://old-0.old'',
               ''--initial-cluster'', ''demo-0=https://demo-0.demo.ns1.svc:2380'']
     ''--initial-cluster'' = 2"
  by (simp add: gen_defs flaggedEnv_def flaggedSts_def fixture_defs showNat_0)

section \<open>Owner references\<close>

text \<open>
  C5. Whatever the client answers, every object that \<^verbatim>\<open>createNestedComponentSts\<close> hands to
  \<^verbatim>\<open>Create\<close>, StatefulSet or Service, carries exactly one owner reference, the controller
  reference of the requesting resource: its name, its UID, its kind, and the API version of the
  control plane group. Setting the owner references a second time with the same reference
  changes nothing: the list is replaced, it still has length one.
\<close>

theorem handed_objects_single_owner:
  assumes run: "createNestedComponentSts (recording cli) env ncMeta ncSpec ncKind cp cn tp (s, [])
                  = (r, (s', calls))"
  shows "(\<forall>(obj, answer) \<in> set calls.
            obj_OwnerReferences obj = [controllerRef ncMeta ncKind] \<and>
            length (obj_OwnerReferences obj) = 1) \<and>
         or_Name (controllerRef ncMeta ncKind) = Name ncMeta \<and>
         or_UID (controllerRef ncMeta ncKind) = UID ncMeta \<and>
         or_Kind (controllerRef ncMeta ncKind) = ncKind \<and>
         or_APIVersion (controllerRef ncMeta ncKind) = ''controlplane.cluster.x-k8s.io/v1alpha4'' \<and>
         sts_SetOwnerReferences [ref] (sts_SetOwnerReferences [ref] sts) =
           sts_SetOwnerReferences [ref] sts \<and>
         svc_SetOwnerReferences [ref] (svc_SetOwnerReferences [ref] svc) =
           svc_SetOwnerReferences [ref] svc \<and>
         length (OwnerReferences (SetOwnerReferences [ref] (SetOwnerReferences [ref] meta))) = 1"
proof -
  have handed: "\<forall>(obj, answer) \<in> set calls.
            obj_OwnerReferences obj = [controllerRef ncMeta ncKind] \<and>
            length (obj_OwnerReferences obj) = 1"
    using createNestedComponentSts_calls[OF run] by auto
  have twice: "sts_SetOwnerReferences [ref] (sts_SetOwnerReferences [ref] sts) =
           sts_SetOwnerReferences [ref] sts"
    "svc_SetOwnerReferences [ref] (svc_SetOwnerReferences [ref] svc) =
           svc_SetOwnerReferences [ref] svc"
    "length (OwnerReferences (SetOwnerReferences [ref] (SetOwnerReferences [ref] meta))) = 1"
    by (simp_all add: sts_SetOwnerReferences_def svc_SetOwnerReferences_def SetOwnerReferences_def)
  from handed twice controllerRef_fields[of ncMeta ncKind] show ?thesis by simp
qed

text \<open>The etcd run of the fixture hands over two objects, each owned by \<^verbatim>\<open>demo-etcd\<close> alone.\<close>

theorem handed_objects_single_owner_witness:
  "\<exists>r s' o1 a1 o2 a2.
     createNestedComponentSts (recording storeCreate) fixtureEnv fixtureMeta fixtureSpec Etcd
       ''cp'' ''demo'' [] ([], []) = (r, (s', [(o1, a1), (o2, a2)])) \<and>
     map or_Name (obj_OwnerReferences o1) = [''demo-etcd''] \<and>
     map or_UID (obj_OwnerReferences o1) = [''uid-1''] \<and>
     map or_Kind (obj_OwnerReferences o1) = [Etcd] \<and>
     map or_Name (obj_OwnerReferences o2) = [''demo-etcd''] \<and>
     map or_UID (obj_OwnerReferences o2) = [''uid-1''] \<and>
     map or_Kind (obj_OwnerReferences o2) = [Etcd]"
proof -
  from fixture_run_etcd obtain r s' o1 a1 o2 a2 where
    run: "createNestedComponentSts (recording storeCreate) fixtureEnv fixtureMeta fixtureSpec Etcd
       ''cp'' ''demo'' [] ([], []) = (r, (s', [(o1, a1), (o2, a2)]))"
    by auto
  note th = handed_objects_single_owner[OF run, where ref = "controllerRef fixtureMeta Etcd"
      and sts = fixtureSts and svc = fixtureSvc and meta = fixtureMeta]
  from th have handed: "obj_OwnerReferences o1 = [controllerRef fixtureMeta Etcd]"
    "obj_OwnerReferences o2 = [controllerRef fixtureMeta Etcd]"
    by simp_all
  from th have ref: "or_Name (controllerRef fixtureMeta Etcd) = ''demo-etcd''"
    "or_UID (controllerRef fixtureMeta Etcd) = ''uid-1''"
    "or_Kind (controllerRef fixtureMeta Etcd) = Etcd"
    by (simp_all add: fixtureMeta_def)
  from run handed ref show ?thesis by auto
qed

section \<open>Resources\<close>

text \<open>
  C6, as the code has it. Whenever \<^verbatim>\<open>genStatefulSetObject\<close> returns a StatefulSet, every
  container of it has exactly the resources of the specification. Applying the overrides to
  the result once more gives the same StatefulSet for every kind but etcd; for etcd the second
  application succeeds and leaves the resources, the replica count, the metadata and the other
  containers as they are, but the first container gets \<^verbatim>\<open>--initial-cluster\<close> and its value
  appended again.
\<close>

theorem resources_uniform_and_remerge:
  assumes "genStatefulSetObject env tp ncMeta ncSpec ncKind cp cn = Inr ncSts"
  shows "(\<forall>c \<in> set (sts_Containers ncSts). c_Resources c = Resources ncSpec) \<and>
         (ncKind \<noteq> Etcd \<longrightarrow> applyOverrides env ncMeta ncSpec ncKind cn ncSts = Inr ncSts) \<and>
         (ncKind = Etcd \<longrightarrow>
            (\<exists>again c cs c' cs'.
               applyOverrides env ncMeta ncSpec ncKind cn ncSts = Inr again \<and>
               map c_Resources (sts_Containers again) = map c_Resources (sts_Containers ncSts) \<and>
               sts_Replicas again = sts_Replicas ncSts \<and>
               sts_ObjectMeta again = sts_ObjectMeta ncSts \<and>
               sts_Containers ncSts = c # cs \<and> sts_Containers again = c' # cs' \<and>
               c_Args c' = c_Args c @
                 [''--initial-cluster'', genInitialClusterArgs env 1 cn cn (Namespace ncMeta)] \<and>
               cs' = cs))"
proof -
  from assms obtain tmplSts where
    a: "applyOverrides env ncMeta ncSpec ncKind cn tmplSts = Inr ncSts"
    using genStatefulSetObject_Inr by blast
  have uniform: "\<forall>c \<in> set (sts_Containers ncSts). c_Resources c = Resources ncSpec"
    using applyOverrides_resources_all[OF a] by blast
  have other: "applyOverrides env ncMeta ncSpec ncKind cn ncSts = Inr ncSts" if "ncKind \<noteq> Etcd"
    using applyOverrides_again_other[OF a that] .
  have etcd: "\<exists>again c cs c' cs'.
               applyOverrides env ncMeta ncSpec ncKind cn ncSts = Inr again \<and>
               map c_Resources (sts_Containers again) = map c_Resources (sts_Containers ncSts) \<and>
               sts_Replicas again = sts_Replicas ncSts \<and>
               sts_ObjectMeta again = sts_ObjectMeta ncSts \<and>
               sts_Containers ncSts = c # cs \<and> sts_Containers again = c' # cs' \<and>
               c_Args c' = c_Args c @
                 [''--initial-cluster'', genInitialClusterArgs env 1 cn cn (Namespace ncMeta)] \<and>
               cs' = cs" if k: "ncKind = Etcd"
  proof -
    from a k obtain c cs where
      r: "sts_Containers ncSts = c # cs" and
      b: "applyOverrides env ncMeta ncSpec ncKind cn ncSts =
            Inr (ncSts\<lparr>sts_Containers :=
              c\<lparr>c_Args := c_Args c @
                 [''--initial-cluster'', genInitialClusterArgs env 1 cn cn (Namespace ncMeta)]\<rparr>
              # cs\<rparr>)"
      using applyOverrides_again_etcd by blast
    show ?thesis
      by (rule exI[where x = "ncSts\<lparr>sts_Containers :=
              c\<lparr>c_Args := c_Args c @
                 [''--initial-cluster'', genInitialClusterArgs env 1 cn cn (Namespace ncMeta)]\<rparr>
              # cs\<rparr>"]) (simp add: b r)
  qed
  from uniform other etcd show ?thesis by blast
qed

text \<open>
  For the API server both containers of the fixture get the cpu limit of the specification,
  and a second application returns the same StatefulSet; for etcd the second application
  keeps the resources and appends the option again.
\<close>

theorem resources_uniform_and_remerge_witness:
  "(\<exists>ncSts. genStatefulSetObject fixtureEnv [] fixtureMeta fixtureSpec APIServer ''cp'' ''demo''
             = Inr ncSts \<and>
     map (\<lambda>c. Limits (c_Resources c) ''cpu'') (sts_Containers ncSts) = [Some ''500m'', Some ''500m''] \<and>
     applyOverrides fixtureEnv fixtureMeta fixtureSpec APIServer ''demo'' ncSts = Inr ncSts) \<and>
   (\<exists>ncSts again. genStatefulSetObject fixtureEnv [] fixtureMeta fixtureSpec Etcd ''cp'' ''demo''
             = Inr ncSts \<and>
     applyOverrides fixtureEnv fixtureMeta fixtureSpec Etcd ''demo'' ncSts = Inr again \<and>
     map c_Resources (sts_Containers again) = map c_Resources (sts_Containers ncSts) \<and>
     c_Args (hd (sts_Containers again)) =
       c_Args (hd (sts_Containers ncSts)) @
         [''--initial-cluster'', ''demo-0=https://demo-0.demo.ns1.svc:2380''])"
proof -
  obtain a where a: "genStatefulSetObject fixtureEnv [] fixtureMeta fixtureSpec
              APIServer ''cp'' ''demo'' = Inr a"
    by (simp add: gen_defs fixture_defs)
  obtain b where b: "genStatefulSetObject fixtureEnv [] fixtureMeta fixtureSpec
              Etcd ''cp'' ''demo'' = Inr b"
    by (simp add: gen_defs fixture_defs)
  have len: "map c_Name (sts_Containers a) = [''etcd'', ''sidecar'']"
    using a by (auto simp: gen_defs fixture_defs)
  from resources_uniform_and_remerge[OF a]
  have u: "\<forall>c \<in> set (sts_Containers a). c_Resources c = Resources fixtureSpec"
    and i: "applyOverrides fixtureEnv fixtureMeta fixtureSpec APIServer ''demo'' a = Inr a"
    by simp_all
  from len obtain x y where xy: "sts_Containers a = [x, y]" by auto
  with u have first: "map (\<lambda>c. Limits (c_Resources c) ''cpu'') (sts_Containers a)
                 = [Some ''500m'', Some ''500m'']"
    by (simp add: fixtureSpec_def)
  from resources_uniform_and_remerge[OF b]
  obtain again c cs c' cs' where
    ag: "applyOverrides fixtureEnv fixtureMeta fixtureSpec Etcd ''demo'' b = Inr again" and
    res: "map c_Resources (sts_Containers again) = map c_Resources (sts_Containers b)" and
    cb: "sts_Containers b = c # cs" and ca: "sts_Containers again = c' # cs'" and
    args: "c_Args c' = c_Args c @ [''--initial-cluster'',
             genInitialClusterArgs fixtureEnv 1 ''demo'' ''demo'' (Namespace fixtureMeta)]"
    by auto
  have v: "genInitialClusterArgs fixtureEnv 1 ''demo'' ''demo'' (Namespace fixtureMeta) =
             ''demo-0=https://demo-0.demo.ns1.svc:2380''"
    by (subst genInitialClusterArgs_1) (simp add: fixtureEnv_def fixtureMeta_def peerName_def showNat_0)
  have second: "c_Args (hd (sts_Containers again)) =
       c_Args (hd (sts_Containers b)) @
         [''--initial-cluster'', ''demo-0=https://demo-0.demo.ns1.svc:2380'']"
    using cb ca args v by simp
  from a i first have api: "\<exists>ncSts.
      genStatefulSetObject fixtureEnv [] fixtureMeta fixtureSpec APIServer ''cp'' ''demo''
        = Inr ncSts \<and>
      map (\<lambda>c. Limits (c_Resources c) ''cpu'') (sts_Containers ncSts)
        = [Some ''500m'', Some ''500m''] \<and>
      applyOverrides fixtureEnv fixtureMeta fixtureSpec APIServer ''demo'' ncSts = Inr ncSts"
    by simp
  from b ag res second have etcd: "\<exists>ncSts again.
      genStatefulSetObject fixtureEnv [] fixtureMeta fixtureSpec Etcd ''cp'' ''demo''
        = Inr ncSts \<and>
      applyOverrides fixtureEnv fixtureMeta fixtureSpec Etcd ''demo'' ncSts = Inr again \<and>
      map c_Resources (sts_Containers again) = map c_Resources (sts_Containers ncSts) \<and>
      c_Args (hd (sts_Containers again)) =
        c_Args (hd (sts_Containers ncSts)) @
          [''--initial-cluster'', ''demo-0=https://demo-0.demo.ns1.svc:2380'']"
    by simp
  from api etcd show ?thesis by (rule conjI)
qed

text \<open>
  For etcd, applying the overrides twice does not give what applying them once gives: the
  first container's arguments hold the option once after the first application and twice
  after the second.
\<close>

theorem etcd_remerge_counterexample:
  "c_Args (hd (sts_Containers (projr
       (applyOverrides fixtureEnv fixtureMeta fixtureSpec Etcd ''demo'' fixtureSts)))) =
     [''--name=$(HOSTNAME)'', ''--initial-cluster'', ''demo-0=https://demo-0.demo.ns1.svc:2380''] \<and>
   c_Args (hd (sts_Containers (projr
       (applyOverrides fixtureEnv fixtureMeta fixtureSpec Etcd ''demo''
          (projr (applyOverrides fixtureEnv fixtureMeta fixtureSpec Etcd ''demo'' fixtureSts)))))) =
     [''--name=$(HOSTNAME)'', ''--initial-cluster'', ''demo-0=https://demo-0.demo.ns1.svc:2380'',
      ''--initial-cluster'', ''demo-0=https://demo-0.demo.ns1.svc:2380''] \<and>
   applyOverrides fixtureEnv fixtureMeta fixtureSpec Etcd ''demo''
          (projr (applyOverrides fixtureEnv fixtureMeta fixtureSpec Etcd ''demo'' fixtureSts))
     \<noteq> applyOverrides fixtureEnv fixtureMeta fixtureSpec Etcd ''demo'' fixtureSts"
  by (simp add: gen_defs fixture_defs showNat_0)

text \<open>
  C10. Whenever \<^verbatim>\<open>genStatefulSetObject\<close> returns a StatefulSet, it has as many containers as
  the decoded template and the resources of each are those of the specification, whatever the
  template said. In particular, when the specification sets no limit and no request, every
  container ends with no limit and no request.
\<close>

theorem template_resources_overwritten:
  assumes "genStatefulSetObject env tp ncMeta ncSpec ncKind cp cn = Inr ncSts"
  shows "\<exists>tmplSts. decodedStatefulSet env tp ncMeta ncSpec ncKind cp cn = Inr tmplSts \<and>
           length (sts_Containers ncSts) = length (sts_Containers tmplSts) \<and>
           map c_Resources (sts_Containers ncSts) =
             replicate (length (sts_Containers tmplSts)) (Resources ncSpec) \<and>
           (Resources ncSpec = \<lparr>Limits = Map.empty, Requests = Map.empty\<rparr> \<longrightarrow>
              (\<forall>c \<in> set (sts_Containers ncSts).
                 Limits (c_Resources c) = Map.empty \<and> Requests (c_Resources c) = Map.empty))"
proof -
  from assms obtain tmplSts where
    d: "decodedStatefulSet env tp ncMeta ncSpec ncKind cp cn = Inr tmplSts" and
    a: "applyOverrides env ncMeta ncSpec ncKind cn tmplSts = Inr ncSts"
    using genStatefulSetObject_Inr by blast
  have len: "length (sts_Containers ncSts) = length (sts_Containers tmplSts)"
    using applyOverrides_names[OF a] by (rule map_eq_imp_length_eq)
  have empty: "\<forall>c \<in> set (sts_Containers ncSts).
                 Limits (c_Resources c) = Map.empty \<and> Requests (c_Resources c) = Map.empty"
    if "Resources ncSpec = \<lparr>Limits = Map.empty, Requests = Map.empty\<rparr>"
    using applyOverrides_resources_all[OF a] that by simp
  from d len applyOverrides_resources[OF a] empty show ?thesis by blast
qed

text \<open>
  The fixture's template gives its first container a cpu limit and its second a memory
  request; with a specification that sets nothing, neither survives.
\<close>

theorem template_resources_overwritten_witness:
  "map (\<lambda>c. Limits (c_Resources c) ''cpu'') (sts_Containers fixtureSts) = [Some ''100m'', None] \<and>
   (\<exists>ncSts. genStatefulSetObject fixtureEnv [] fixtureMeta
       (fixtureSpec\<lparr>Resources := \<lparr>Limits = Map.empty, Requests = Map.empty\<rparr>\<rparr>)
       ControllerManager ''cp'' ''demo'' = Inr ncSts \<and>
     map (\<lambda>c. Limits (c_Resources c) ''cpu'') (sts_Containers ncSts) = [None, None] \<and>
     map (\<lambda>c. Requests (c_Resources c) ''memory'') (sts_Containers ncSts) = [None, None])"
proof -
  let ?spec = "fixtureSpec\<lparr>Resources := \<lparr>Limits = Map.empty, Requests = Map.empty\<rparr>\<rparr>"
  have d: "decodedStatefulSet fixtureEnv [] fixtureMeta ?spec ControllerManager ''cp'' ''demo''
             = Inr fixtureSts"
    by (rule fixture_decoded) (simp_all add: fixtureSpec_def)
  obtain a where a: "genStatefulSetObject fixtureEnv [] fixtureMeta ?spec
              ControllerManager ''cp'' ''demo'' = Inr a"
    by (simp add: gen_defs fixture_defs)
  from template_resources_overwritten[OF a] d
  have "map c_Resources (sts_Containers a) =
          replicate (length (sts_Containers fixtureSts)) (Resources ?spec)"
    by simp
  then have r: "map c_Resources (sts_Containers a) =
      [\<lparr>Limits = Map.empty, Requests = Map.empty\<rparr>, \<lparr>Limits = Map.empty, Requests = Map.empty\<rparr>]"
    by (simp add: fixtureSts_def)
  then obtain x y where xy: "sts_Containers a = [x, y]" by auto
  with r have "map (\<lambda>c. Limits (c_Resources c) ''cpu'') (sts_Containers a) = [None, None]"
    and "map (\<lambda>c. Requests (c_Resources c) ''memory'') (sts_Containers a) = [None, None]"
    by simp_all
  moreover have "map (\<lambda>c. Limits (c_Resources c) ''cpu'') (sts_Containers fixtureSts)
                   = [Some ''100m'', None]"
    by (simp add: fixtureSts_def)
  ultimately show ?thesis using a by simp
qed

section \<open>Service and StatefulSet\<close>

text \<open>
  C7. Whatever the client answers: for the controller manager every object handed to the
  store is a StatefulSet, and once the StatefulSet is generated it is the one object handed
  over. For every other kind, once the StatefulSet and the Service are generated, the Service,
  with its owner set, is the first object handed to \<^verbatim>\<open>Create\<close>, and it is created when the
  store answers nil; when the Service cannot be generated nothing is handed over. For the API
  server and for etcd, with neither version nor channel set, the Service is generated as soon
  as its template is fetched, substituted and decoded. So a call that hands anything to the
  store hands it a Service exactly when the kind is not the controller manager, and a call
  that returns nil has created a Service, the generated one, exactly when the kind is not the
  controller manager.
\<close>

theorem service_iff_not_controller_manager:
  assumes run: "createNestedComponentSts (recording cli) env ncMeta ncSpec ncKind cp cn tp (s, [])
                  = (r, (s', calls))"
  shows "(ncKind = ControllerManager \<longrightarrow> (\<forall>(obj, answer) \<in> set calls. \<exists>sts. obj = StsObj sts)) \<and>
         (calls \<noteq> [] \<longrightarrow>
            ((\<exists>svc answer. (SvcObj svc, answer) \<in> set calls) \<longleftrightarrow> ncKind \<noteq> ControllerManager)) \<and>
         (r = None \<longrightarrow>
            ((\<exists>svc. (SvcObj svc, None) \<in> set calls) \<longleftrightarrow> ncKind \<noteq> ControllerManager)) \<and>
         (r = None \<longrightarrow> ncKind \<noteq> ControllerManager \<longrightarrow>
            (\<exists>ncSvc. genServiceObject env tp ncMeta ncSpec ncKind cp cn = Inr ncSvc \<and>
               (SvcObj (svc_SetOwnerReferences [controllerRef ncMeta ncKind] ncSvc), None)
                 \<in> set calls)) \<and>
         (r = None \<longrightarrow> ncKind = ControllerManager \<longrightarrow> (\<exists>sts. calls = [(StsObj sts, None)])) \<and>
         (ncKind \<noteq> ControllerManager \<longrightarrow>
            (\<forall>ncSts ncSvc.
               genStatefulSetObject env tp ncMeta ncSpec ncKind cp cn = Inr ncSts \<longrightarrow>
               genServiceObject env tp ncMeta ncSpec ncKind cp cn = Inr ncSvc \<longrightarrow>
               (\<exists>rest. calls =
                  (SvcObj (svc_SetOwnerReferences [controllerRef ncMeta ncKind] ncSvc),
                   fst (cli (SvcObj (svc_SetOwnerReferences [controllerRef ncMeta ncKind] ncSvc)) s))
                  # rest))) \<and>
         (ncKind \<noteq> ControllerManager \<longrightarrow>
            (\<forall>f. genServiceObject env tp ncMeta ncSpec ncKind cp cn = Inl f \<longrightarrow>
               calls = [] \<and> r \<noteq> None)) \<and>
         (ncKind = ControllerManager \<longrightarrow>
            (\<forall>ncSts.
               genStatefulSetObject env tp ncMeta ncSpec ncKind cp cn = Inr ncSts \<longrightarrow>
               (\<exists>x. calls = [(StsObj (sts_SetOwnerReferences [controllerRef ncMeta ncKind] ncSts),
                               x)]))) \<and>
         (ncKind = APIServer \<or> ncKind = Etcd \<longrightarrow> Version ncSpec = [] \<longrightarrow> Channel ncSpec = [] \<longrightarrow>
            (\<forall>svcTmpl svcStr svc.
               fetchTemplate env (tp @ (if ncKind = APIServer then defaultKASServiceURL env
                                        else defaultEtcdServiceURL env)) = Inr svcTmpl \<longrightarrow>
               substituteTemplate env (getTemplateArgs ncMeta cp cn) svcTmpl = Inr svcStr \<longrightarrow>
               decodeService env svcStr = Inr svc \<longrightarrow>
               genServiceObject env tp ncMeta ncSpec ncKind cp cn = Inr svc))"
proof -
  note cases = createNestedComponentSts_calls[OF run]
  have c1: "ncKind = ControllerManager \<longrightarrow>
              (\<forall>(obj, answer) \<in> set calls. \<exists>sts. obj = StsObj sts)"
    using cases by auto
  have c2: "calls \<noteq> [] \<longrightarrow>
            ((\<exists>svc answer. (SvcObj svc, answer) \<in> set calls) \<longleftrightarrow> ncKind \<noteq> ControllerManager)"
    using cases by auto
  have c3: "r = None \<longrightarrow>
            ((\<exists>svc. (SvcObj svc, None) \<in> set calls) \<longleftrightarrow> ncKind \<noteq> ControllerManager)"
    using cases by auto
  have c4: "r = None \<longrightarrow> ncKind \<noteq> ControllerManager \<longrightarrow>
            (\<exists>ncSvc. genServiceObject env tp ncMeta ncSpec ncKind cp cn = Inr ncSvc \<and>
               (SvcObj (svc_SetOwnerReferences [controllerRef ncMeta ncKind] ncSvc), None)
                 \<in> set calls)"
    using cases by auto
  have c5: "r = None \<longrightarrow> ncKind = ControllerManager \<longrightarrow> (\<exists>sts. calls = [(StsObj sts, None)])"
    using cases by auto
  have c6: "ncKind \<noteq> ControllerManager \<longrightarrow>
            (\<forall>ncSts ncSvc.
               genStatefulSetObject env tp ncMeta ncSpec ncKind cp cn = Inr ncSts \<longrightarrow>
               genServiceObject env tp ncMeta ncSpec ncKind cp cn = Inr ncSvc \<longrightarrow>
               (\<exists>rest. calls =
                  (SvcObj (svc_SetOwnerReferences [controllerRef ncMeta ncKind] ncSvc),
                   fst (cli (SvcObj (svc_SetOwnerReferences [controllerRef ncMeta ncKind] ncSvc)) s))
                  # rest))"
    using createNestedComponentSts_service_first[OF run] by blast
  have c7: "ncKind \<noteq> ControllerManager \<longrightarrow>
            (\<forall>f. genServiceObject env tp ncMeta ncSpec ncKind cp cn = Inl f \<longrightarrow>
               calls = [] \<and> r \<noteq> None)"
    using createNestedComponentSts_no_service_generated[OF run] by blast
  have c8: "ncKind = ControllerManager \<longrightarrow>
            (\<forall>ncSts.
               genStatefulSetObject env tp ncMeta ncSpec ncKind cp cn = Inr ncSts \<longrightarrow>
               (\<exists>x. calls = [(StsObj (sts_SetOwnerReferences [controllerRef ncMeta ncKind] ncSts),
                               x)]))"
    using createNestedComponentSts_kcm_only_sts[OF run] by blast
  have c9: "ncKind = APIServer \<or> ncKind = Etcd \<longrightarrow> Version ncSpec = [] \<longrightarrow> Channel ncSpec = [] \<longrightarrow>
            (\<forall>svcTmpl svcStr svc.
               fetchTemplate env (tp @ (if ncKind = APIServer then defaultKASServiceURL env
                                        else defaultEtcdServiceURL env)) = Inr svcTmpl \<longrightarrow>
               substituteTemplate env (getTemplateArgs ncMeta cp cn) svcTmpl = Inr svcStr \<longrightarrow>
               decodeService env svcStr = Inr svc \<longrightarrow>
               genServiceObject env tp ncMeta ncSpec ncKind cp cn = Inr svc)"
    using genServiceObject_generated[of ncKind ncSpec env tp _ ncMeta cp cn] by blast
  from c1 c2 c3 c4 c5 c6 c7 c8 c9 show ?thesis by (intro conjI)
qed

text \<open>
  The fixture: for etcd a Service is created, for the controller manager the one call is the
  StatefulSet, and for the API server the first call is the Service, which the store accepts.
\<close>

theorem service_iff_not_controller_manager_witness:
  "(\<exists>s' calls svc.
      createNestedComponentSts (recording storeCreate) fixtureEnv fixtureMeta fixtureSpec Etcd
        ''cp'' ''demo'' [] ([], []) = (None, (s', calls)) \<and> (SvcObj svc, None) \<in> set calls) \<and>
   (\<exists>s' sts.
      createNestedComponentSts (recording storeCreate) fixtureEnv fixtureMeta fixtureSpec
        ControllerManager ''cp'' ''demo'' [] ([], []) = (None, (s', [(StsObj sts, None)]))) \<and>
   (\<exists>r s' rest.
      createNestedComponentSts (recording storeCreate) fixtureEnv fixtureMeta fixtureSpec
        APIServer ''cp'' ''demo'' [] ([], []) =
        (r, (s', (SvcObj (svc_SetOwnerReferences [controllerRef fixtureMeta APIServer] fixtureSvc),
                  None) # rest)))"
proof -
  from fixture_run_etcd obtain s' calls where
    e: "createNestedComponentSts (recording storeCreate) fixtureEnv fixtureMeta fixtureSpec Etcd
       ''cp'' ''demo'' [] ([], []) = (None, (s', calls))"
    by auto
  from fixture_run_kcm obtain t' calls' where
    k: "createNestedComponentSts (recording storeCreate) fixtureEnv fixtureMeta fixtureSpec
       ControllerManager ''cp'' ''demo'' [] ([], []) = (None, (t', calls'))"
    by auto
  obtain r u' calls'' where
    a: "createNestedComponentSts (recording storeCreate) fixtureEnv fixtureMeta fixtureSpec
       APIServer ''cp'' ''demo'' [] ([], []) = (r, (u', calls''))"
    by (metis surj_pair)
  from service_iff_not_controller_manager[OF e]
  have etcd: "\<exists>svc. (SvcObj svc, None) \<in> set calls" by simp
  from service_iff_not_controller_manager[OF k]
  have kcm: "\<exists>sts. calls' = [(StsObj sts, None)]" by simp
  note th = service_iff_not_controller_manager[OF a]
  have vc: "Version fixtureSpec = []" "Channel fixtureSpec = []"
    by (simp_all add: fixtureSpec_def)
  have fetched: "fetchTemplate fixtureEnv ([] @ (if APIServer = APIServer
            then defaultKASServiceURL fixtureEnv else defaultEtcdServiceURL fixtureEnv))
          = Inr ''/kas-svc.yaml''"
    by (simp add: fetchTemplate_def fixtureEnv_def)
  have rendered: "substituteTemplate fixtureEnv (getTemplateArgs fixtureMeta ''cp'' ''demo'')
          ''/kas-svc.yaml'' = Inr ''/kas-svc.yaml''"
    by (simp add: substituteTemplate_def fixtureEnv_def)
  have decoded: "decodeService fixtureEnv ''/kas-svc.yaml'' = Inr fixtureSvc"
    by (simp add: fixtureEnv_def)
  from th vc have gen: "\<forall>svcTmpl svcStr svc.
      fetchTemplate fixtureEnv ([] @ (if APIServer = APIServer
            then defaultKASServiceURL fixtureEnv else defaultEtcdServiceURL fixtureEnv))
          = Inr svcTmpl \<longrightarrow>
      substituteTemplate fixtureEnv (getTemplateArgs fixtureMeta ''cp'' ''demo'') svcTmpl
          = Inr svcStr \<longrightarrow>
      decodeService fixtureEnv svcStr = Inr svc \<longrightarrow>
      genServiceObject fixtureEnv [] fixtureMeta fixtureSpec APIServer ''cp'' ''demo'' = Inr svc"
    by simp
  from gen fetched rendered decoded
  have svc: "genServiceObject fixtureEnv [] fixtureMeta fixtureSpec APIServer ''cp'' ''demo''
               = Inr fixtureSvc"
    by blast
  obtain ncSts where sts: "genStatefulSetObject fixtureEnv [] fixtureMeta fixtureSpec APIServer
               ''cp'' ''demo'' = Inr ncSts"
    by (simp add: gen_defs fixture_defs)
  have k': "APIServer \<noteq> ControllerManager" by simp
  from th k' have first: "\<forall>ncSts ncSvc.
      genStatefulSetObject fixtureEnv [] fixtureMeta fixtureSpec APIServer ''cp'' ''demo''
        = Inr ncSts \<longrightarrow>
      genServiceObject fixtureEnv [] fixtureMeta fixtureSpec APIServer ''cp'' ''demo''
        = Inr ncSvc \<longrightarrow>
      (\<exists>rest. calls'' =
         (SvcObj (svc_SetOwnerReferences [controllerRef fixtureMeta APIServer] ncSvc),
          fst (storeCreate (SvcObj (svc_SetOwnerReferences
                 [controllerRef fixtureMeta APIServer] ncSvc)) [])) # rest)"
    by simp
  from first sts svc obtain rest where
    "calls'' = (SvcObj (svc_SetOwnerReferences [controllerRef fixtureMeta APIServer] fixtureSvc),
                fst (storeCreate (SvcObj (svc_SetOwnerReferences
                       [controllerRef fixtureMeta APIServer] fixtureSvc)) [])) # rest"
    by blast
  then have kas: "calls'' =
      (SvcObj (svc_SetOwnerReferences [controllerRef fixtureMeta APIServer] fixtureSvc), None) # rest"
    by (simp add: storeCreate_def)
  from e etcd have w1: "\<exists>s' calls svc.
      createNestedComponentSts (recording storeCreate) fixtureEnv fixtureMeta fixtureSpec Etcd
        ''cp'' ''demo'' [] ([], []) = (None, (s', calls)) \<and> (SvcObj svc, None) \<in> set calls"
    by blast
  from k kcm have w2: "\<exists>s' sts.
      createNestedComponentSts (recording storeCreate) fixtureEnv fixtureMeta fixtureSpec
        ControllerManager ''cp'' ''demo'' [] ([], []) = (None, (s', [(StsObj sts, None)]))"
    by blast
  from a kas have w3: "\<exists>r s' rest.
      createNestedComponentSts (recording storeCreate) fixtureEnv fixtureMeta fixtureSpec
        APIServer ''cp'' ''demo'' [] ([], []) =
        (r, (s', (SvcObj (svc_SetOwnerReferences [controllerRef fixtureMeta APIServer] fixtureSvc),
                  None) # rest))"
    by blast
  from w1 w2 w3 show ?thesis by (intro conjI)
qed

text \<open>
  C8, as the code has it. Whatever the client: when the store answers a \<^verbatim>\<open>Create\<close> with an
  error, already-exists included, \<^verbatim>\<open>createNestedComponentSts\<close> returns that very error to its
  caller, and that \<^verbatim>\<open>Create\<close> is the last call it makes to the store.
\<close>

theorem create_error_returned:
  assumes run: "createNestedComponentSts (recording cli) env ncMeta ncSpec ncKind cp cn tp (s, [])
                  = (r, (s', calls))"
    and failed: "(obj, Some e) \<in> set calls"
  shows "r = Some (Error e) \<and> last calls = (obj, Some e) \<and>
         createNestedComponentSts cli env ncMeta ncSpec ncKind cp cn tp s = (Some (Error e), s')"
proof -
  from createNestedComponentSts_calls[OF run] failed
  have "r = Some (Error e) \<and> last calls = (obj, Some e)" by auto
  with recording_simulates[OF run] show ?thesis by simp
qed

text \<open>
  The etcd Service is in the store already: the call returns already-exists after the one
  \<^verbatim>\<open>Create\<close>, and the StatefulSet is not handed over.
\<close>

theorem create_error_returned_witness:
  "createNestedComponentSts (recording storeCreate) fixtureEnv fixtureMeta fixtureSpec Etcd
     ''cp'' ''demo'' [] ([SvcObj fixtureSvc], []) =
     (Some (Error AlreadyExists),
      ([SvcObj fixtureSvc],
       [(SvcObj (svc_SetOwnerReferences [controllerRef fixtureMeta Etcd] fixtureSvc),
         Some AlreadyExists)])) \<and>
   createNestedComponentSts storeCreate fixtureEnv fixtureMeta fixtureSpec Etcd
     ''cp'' ''demo'' [] [SvcObj fixtureSvc] = (Some (Error AlreadyExists), [SvcObj fixtureSvc])"
proof -
  have "(SvcObj (svc_SetOwnerReferences [controllerRef fixtureMeta Etcd] fixtureSvc),
         Some AlreadyExists)
        \<in> set [(SvcObj (svc_SetOwnerReferences [controllerRef fixtureMeta Etcd] fixtureSvc),
                 Some AlreadyExists)]"
    by simp
  from create_error_returned[OF fixture_run_svc_exists this] fixture_run_svc_exists
  show ?thesis by simp
qed

text \<open>
  The controller manager's StatefulSet is in the store already: the call does not return nil,
  it returns the store's already-exists error.
\<close>

theorem already_exists_counterexample:
  "createNestedComponentSts storeCreate fixtureEnv fixtureMeta fixtureSpec ControllerManager
     ''cp'' ''demo'' [] [StsObj fixtureSts] = (Some (Error AlreadyExists), [StsObj fixtureSts])"
  by (simp add: gen_defs create_defs fixture_defs)

text \<open>
  C9. For a kind other than the controller manager, whatever the client answers, the calls to
  the store are none, or the Service alone (refused), or the Service (accepted) and then the
  StatefulSet: the StatefulSet is never handed over before the Service, nor without the
  Service having been created. A call that returns nil has created the Service first and the
  StatefulSet second.
\<close>

theorem service_before_statefulset:
  assumes run: "createNestedComponentSts (recording cli) env ncMeta ncSpec ncKind cp cn tp (s, [])
                  = (r, (s', calls))"
    and kind: "ncKind \<noteq> ControllerManager"
  shows "(calls = [] \<or> (\<exists>svc e. calls = [(SvcObj svc, Some e)]) \<or>
          (\<exists>svc sts x. calls = [(SvcObj svc, None), (StsObj sts, x)])) \<and>
         (r = None \<longrightarrow> (\<exists>svc sts. calls = [(SvcObj svc, None), (StsObj sts, None)]))"
  using createNestedComponentSts_calls[OF run] kind by auto

text \<open>The etcd run of the fixture: the Service, then the StatefulSet.\<close>

theorem service_before_statefulset_witness:
  "\<exists>s' svc sts.
     Etcd \<noteq> ControllerManager \<and>
     createNestedComponentSts (recording storeCreate) fixtureEnv fixtureMeta fixtureSpec Etcd
       ''cp'' ''demo'' [] ([], []) = (None, (s', [(SvcObj svc, None), (StsObj sts, None)])) \<and>
     objKey (SvcObj svc) = (''Service'', ''ns1'', ''demo-etcd'')"
proof -
  from fixture_run_etcd obtain s' calls where
    e: "createNestedComponentSts (recording storeCreate) fixtureEnv fixtureMeta fixtureSpec Etcd
       ''cp'' ''demo'' [] ([], []) = (None, (s', calls))" and
    h: "fst (hd calls) = SvcObj (svc_SetOwnerReferences [controllerRef fixtureMeta Etcd] fixtureSvc)"
    by auto
  have k: "Etcd \<noteq> ControllerManager" by simp
  from service_before_statefulset[OF e k]
  obtain svc sts where c: "calls = [(SvcObj svc, None), (StsObj sts, None)]" by auto
  with h have "objKey (SvcObj svc) = (''Service'', ''ns1'', ''demo-etcd'')"
    by (simp add: svc_SetOwnerReferences_def SetOwnerReferences_def fixtureSvc_def)
  with e c k show ?thesis by blast
qed

end
